theory Spec2Isabelle
  imports Complex_Main "HOL-Library.Sublist"
begin

section \<open>JavaScript values\<close>

text \<open>
  The adapter (class \<open>PaypalModuleService\<close>) works on untyped bags: the session data the
  framework round-trips, the orders the processor returns, the body of a processor error.
  They are modelled as JSON-like values. An object is a finite map from property names to
  values.

  A number is a double. No arithmetic is done on numbers by the adapter, only the test for
  truthiness, so a finite double is represented by the rational it denotes.
\<close>

datatype number = NaN | PosInf | NegInf | Fin rat

datatype json =
    JUndefined
  | JNull
  | JBool bool
  | JNum number
  | JStr string
  | JArr "json list"
  | JObj "string \<Rightarrow> json option"

type_synonym obj = "string \<rightharpoonup> json"

text \<open>\<open>!v\<close> is \<open>\<not> truthy v\<close>.\<close>

fun truthy :: "json \<Rightarrow> bool" where
  "truthy JUndefined = False"
| "truthy JNull = False"
| "truthy (JBool b) = b"
| "truthy (JNum n) = (n \<noteq> NaN \<and> n \<noteq> Fin 0)"
| "truthy (JStr s) = (s \<noteq> [])"
| "truthy (JArr xs) = True"
| "truthy (JObj ob) = True"

fun nullish :: "json \<Rightarrow> bool" where
  "nullish JUndefined = True"
| "nullish JNull = True"
| "nullish v = False"

text \<open>\<open>ob.k\<close> on an object: the value, or \<open>undefined\<close> when the key is missing.\<close>

definition field :: "string \<Rightarrow> obj \<Rightarrow> json" where
  "field k ob = (case ob k of Some v \<Rightarrow> v | None \<Rightarrow> JUndefined)"

text \<open>
  \<open>v?.k\<close>: \<open>undefined\<close> on \<open>null\<close> and \<open>undefined\<close>; a primitive or an array has none of
  the keys the adapter reads, so the read gives \<open>undefined\<close> there too.
\<close>

fun opt :: "string \<Rightarrow> json \<Rightarrow> json" where
  "opt k (JObj ob) = field k ob"
| "opt k v = JUndefined"

text \<open>\<open>v?.[0]\<close>: the first element of an array, the first character of a string.\<close>

fun index0 :: "json \<Rightarrow> json" where
  "index0 (JArr xs) = (case xs of [] \<Rightarrow> JUndefined | x # _ \<Rightarrow> x)"
| "index0 (JStr s) = (case s of [] \<Rightarrow> JUndefined | c # _ \<Rightarrow> JStr [c])"
| "index0 (JObj ob) = field ''0'' ob"
| "index0 v = JUndefined"

text \<open>
  Object spread and property definition in an object literal: \<open>{...a, ...b, k: v}\<close> is
  \<open>(a ++ b)(k \<mapsto> v)\<close>, and the copy \<open>{...a}\<close> is \<open>a\<close>.
\<close>

section \<open>What the adapter takes from outside\<close>

text \<open>
  Modelled from the spec: the enumeration \<open>PaymentSessionStatus\<close> is declared by the hosting
  framework, not in this repository. The spec (section 4.1) names five states. The string
  each member stands for is a parameter (\<open>status_value\<close> below).
\<close>

datatype PaymentSessionStatus = NOT_INITIATED | PENDING | AUTHORIZED | CAPTURED | CANCELED

definition PaymentSessionStatuses :: "PaymentSessionStatus list" where
  "PaymentSessionStatuses = [NOT_INITIATED, PENDING, AUTHORIZED, CAPTURED, CANCELED]"

text \<open>
  The built-ins of the language and the clock. \<open>ToNumber\<close> and \<open>ToString\<close> are the
  conversions \<open>Number(v)\<close> and \<open>`${v}`\<close>; they are asked only for a value that is not
  already a number, respectively a string.
\<close>

record host =
  JSON_parse :: "string \<Rightarrow> json option"
  ToNumber :: "json \<Rightarrow> number"
  ToString :: "json \<Rightarrow> string"
  toISOString_now :: string
  status_value :: "PaymentSessionStatus \<Rightarrow> string"

definition Number_js :: "host \<Rightarrow> json \<Rightarrow> number" where
  "Number_js h v = (case v of JNum n \<Rightarrow> n | _ \<Rightarrow> ToNumber h v)"

definition String_js :: "host \<Rightarrow> json \<Rightarrow> string" where
  "String_js h v = (case v of JStr s \<Rightarrow> s | _ \<Rightarrow> ToString h v)"

datatype MedusaErrorType = INVALID_DATA | NOT_FOUND

text \<open>
  What can be thrown: the adapter's own \<open>MedusaError\<close>, the language's \<open>TypeError\<close>
  (a property read on \<open>null\<close> or \<open>undefined\<close>, a call of something that is no function)
  and \<open>SyntaxError\<close> (\<open>JSON.parse\<close>), and whatever value the processor client throws.
\<close>

datatype exn =
    MedusaError MedusaErrorType string
  | TypeError
  | SyntaxError
  | ProcessorError json

text \<open>
  Every request that reaches the processor is recorded, in order. The processor answers a
  request knowing the requests made so far.
\<close>

datatype call =
    CaptureOrder json
  | CreateOrder obj
  | RetrieveOrder json
  | RefundCapturedPayment json
  | VerifyWebhook obj json

text \<open>
  The operations of \<open>PaypalService\<close> that make one request each (\<open>captureOrder\<close>,
  \<open>createOrder\<close>, \<open>retrieveOrder\<close>, \<open>verifyWebhook\<close>), and the SDK's
  \<open>refundCapturedPayment\<close>, which \<open>PaypalService.refundPayment\<close> calls in a loop.
  \<open>Inl\<close> is a thrown error.
\<close>

record processor =
  captureOrder :: "call list \<Rightarrow> json \<Rightarrow> exn + obj"
  createOrder :: "call list \<Rightarrow> obj \<Rightarrow> exn + obj"
  retrieveOrder :: "call list \<Rightarrow> json \<Rightarrow> exn + json"
  refundCapturedPayment :: "call list \<Rightarrow> json \<Rightarrow> exn + json"
  verifyWebhook :: "call list \<Rightarrow> obj \<Rightarrow> json \<Rightarrow> exn + unit"

text \<open>The framework's input: the session data bag and the call context, both optional.\<close>

record PaymentInput =
  data :: "obj option"
  input_context :: "obj option"

record InitiatePaymentInput = PaymentInput +
  amount :: json
  currency_code :: json

record WebhookPayload =
  payload_data :: json
  headers :: obj

section \<open>The decline classifier: \<open>checkPaymentStatus\<close>\<close>

definition processorResponseMap :: "string \<rightharpoonup> obj" where
  "processorResponseMap =
    [''0500'' \<mapsto>
       [''code'' \<mapsto> JStr ''0500 - DO_NOT_HONOR'',
        ''message'' \<mapsto> JStr ''Card refused by issuer. Please try again or use a different card.'',
        ''retryable'' \<mapsto> JBool False],
     ''9500'' \<mapsto>
       [''code'' \<mapsto> JStr ''9500 - SUSPECTED_FRAUD'',
        ''message'' \<mapsto> JStr ''Suspected fraudulent card. Please try again and use a different card.'',
        ''retryable'' \<mapsto> JBool False],
     ''5400'' \<mapsto>
       [''code'' \<mapsto> JStr ''5400 - EXPIRED_CARD'',
        ''message'' \<mapsto> JStr ''Card has expired. Please try again and use a different card.'',
        ''retryable'' \<mapsto> JBool False],
     ''5120'' \<mapsto>
       [''code'' \<mapsto> JStr ''5120 - INSUFFICIENT_FUNDS'',
        ''message'' \<mapsto> JStr ''Insufficient funds. Please try again or use a different card.'',
        ''retryable'' \<mapsto> JBool True],
     ''00N7'' \<mapsto>
       [''code'' \<mapsto> JStr ''00N7 - CVV_FAILURE'',
        ''message'' \<mapsto> JStr ''Incorrect security code. Please try again or use a different card.'',
        ''retryable'' \<mapsto> JBool True],
     ''1330'' \<mapsto>
       [''code'' \<mapsto> JStr ''1330 - INVALID_ACCOUNT'',
        ''message'' \<mapsto> JStr ''Card not valid. Please try again or use a different card.'',
        ''retryable'' \<mapsto> JBool True],
     ''5100'' \<mapsto>
       [''code'' \<mapsto> JStr ''5100 - GENERIC_DECLINE'',
        ''message'' \<mapsto> JStr ''Card is declined. Please try again or use a different card.'',
        ''retryable'' \<mapsto> JBool True]]"

text \<open>
  \<open>processorResponseMap[key]\<close> is a property read on an object literal, so a key that names
  a member every object inherits finds that member: a function or the prototype, truthy,
  with no property of its own to spread.
\<close>

definition Object_prototype_members :: "string list" where
  "Object_prototype_members =
    [''constructor'', ''__proto__'', ''hasOwnProperty'', ''isPrototypeOf'',
     ''propertyIsEnumerable'', ''toLocaleString'', ''toString'', ''valueOf'',
     ''__defineGetter__'', ''__defineSetter__'', ''__lookupGetter__'', ''__lookupSetter__'']"

definition declined_message :: string where
  "declined_message = ''Payment declined. Please try again or use a different card.''"

definition checkPaymentStatus :: "host \<Rightarrow> json \<Rightarrow> json \<Rightarrow> obj" where
  "checkPaymentStatus h status processorResponse =
    (if status = JStr ''COMPLETED'' then [''status'' \<mapsto> status]
     else if status = JStr ''DECLINED'' then
       (let responseCode = opt ''responseCode'' processorResponse in
        if truthy responseCode then
          (let key = String_js h responseCode;
               errorDetails =
                 (case processorResponseMap key of
                    Some entry \<Rightarrow> entry
                  | None \<Rightarrow>
                      if key \<in> set Object_prototype_members then Map.empty
                      else [''code'' \<mapsto> responseCode,
                            ''message'' \<mapsto> JStr declined_message,
                            ''retryable'' \<mapsto> JBool False])
           in [''status'' \<mapsto> status,
               ''error'' \<mapsto> JObj (errorDetails(
                  ''avsCode'' \<mapsto> opt ''avsCode'' processorResponse,
                  ''cvvCode'' \<mapsto> opt ''cvvCode'' processorResponse))])
        else
          [''status'' \<mapsto> status,
           ''error'' \<mapsto> JObj [''code'' \<mapsto> JStr ''DECLINED'',
                              ''message'' \<mapsto> JStr declined_message,
                              ''retryable'' \<mapsto> JBool False]])
     else
       [''status'' \<mapsto> status,
        ''error'' \<mapsto> JObj [''code'' \<mapsto> JStr ''UNKNOWN_STATUS'',
                           ''message'' \<mapsto> JStr (''Unknown payment status: '' @ String_js h status
                              @ ''. Please try again or use a different card.''),
                           ''retryable'' \<mapsto> JBool False]])"

section \<open>Reading captures out of an order\<close>

text \<open>\<open>v.k\<close>: a \<open>TypeError\<close> on \<open>null\<close> and \<open>undefined\<close>.\<close>

definition dot :: "string \<Rightarrow> json \<Rightarrow> exn + json" where
  "dot k v = (if nullish v then Inl TypeError else Inr (opt k v))"

definition and_then :: "exn + 'a \<Rightarrow> ('a \<Rightarrow> exn + 'b) \<Rightarrow> exn + 'b" where
  "and_then r f = (case r of Inl e \<Rightarrow> Inl e | Inr x \<Rightarrow> f x)"

primrec traverse :: "('a \<Rightarrow> exn + 'b) \<Rightarrow> 'a list \<Rightarrow> exn + 'b list" where
  "traverse f [] = Inr []"
| "traverse f (x # xs) =
     (case f x of
        Inl e \<Rightarrow> Inl e
      | Inr y \<Rightarrow> (case traverse f xs of Inl e \<Rightarrow> Inl e | Inr ys \<Rightarrow> Inr (y # ys)))"

text \<open>
  \<open>order.purchaseUnits?.[0].payments?.captures?.[0]\<close>, as \<open>authorizePayment\<close> writes it for
  the session data and for the captured order: the read of \<open>payments\<close> is not optional, so
  a \<open>purchaseUnits\<close> without a first element throws.
\<close>

definition first_capture :: "obj \<Rightarrow> exn + json" where
  "first_capture order =
    (let purchaseUnits = field ''purchaseUnits'' order in
     if nullish purchaseUnits then Inr JUndefined
     else
       (let unit0 = index0 purchaseUnits in
        if nullish unit0 then Inl TypeError
        else Inr (index0 (opt ''captures'' (opt ''payments'' unit0)))))"

text \<open>\<open>body?.purchase_units?.[0]?.payments?.captures?.[0]\<close>, for the body of a processor error.\<close>

definition error_body_capture :: "json \<Rightarrow> json" where
  "error_body_capture body =
     index0 (opt ''captures'' (opt ''payments'' (index0 (opt ''purchase_units'' body))))"

text \<open>
  The capture ids of \<open>refundPayment\<close>:
  \<open>purchaseUnits?.flatMap((item) => item?.payments?.captures?.map((capture) => capture.id))
  .filter((id) => id !== undefined)\<close>.
\<close>

definition unit_capture_ids :: "json \<Rightarrow> exn + json" where
  "unit_capture_ids item =
    (let captures = opt ''captures'' (opt ''payments'' item) in
     if nullish captures then Inr JUndefined
     else
       (case captures of
          JArr cs \<Rightarrow> and_then (traverse (dot ''id'') cs) (\<lambda>ids. Inr (JArr ids))
        | _ \<Rightarrow> Inl TypeError))"

definition flatten1 :: "json list \<Rightarrow> json list" where
  "flatten1 rs = concat (map (\<lambda>r. case r of JArr ys \<Rightarrow> ys | _ \<Rightarrow> [r]) rs)"

definition captureIds_of :: "json \<Rightarrow> exn + json list" where
  "captureIds_of purchaseUnits =
    (case purchaseUnits of
       JArr units \<Rightarrow>
         and_then (traverse unit_capture_ids units)
           (\<lambda>rs. Inr (filter (\<lambda>i. i \<noteq> JUndefined) (flatten1 rs)))
     | _ \<Rightarrow> Inl TypeError)"

section \<open>\<open>PaypalService.refundPayment\<close>\<close>

text \<open>
  One request to the refund endpoint per capture id, in order; the first failure ends
  the loop.
\<close>

fun PaypalService_refundPayment ::
  "processor \<Rightarrow> json list \<Rightarrow> json list \<Rightarrow> call list \<Rightarrow> (exn + json list) \<times> call list" where
  "PaypalService_refundPayment P [] refunds hist = (Inr refunds, hist)"
| "PaypalService_refundPayment P (captureId # rest) refunds hist =
     (case refundCapturedPayment P hist captureId of
        Inl e \<Rightarrow> (Inl e, hist @ [RefundCapturedPayment captureId])
      | Inr refund \<Rightarrow>
          PaypalService_refundPayment P rest (refunds @ [refund])
            (hist @ [RefundCapturedPayment captureId]))"

section \<open>The payment session adapter\<close>

definition idempotency_key :: "obj option \<Rightarrow> json" where
  "idempotency_key ctx = (case ctx of None \<Rightarrow> JUndefined | Some c \<Rightarrow> field ''idempotency_key'' c)"

text \<open>The argument of \<open>client.createOrder\<close>, an object literal.\<close>

definition createOrderInput :: "number \<Rightarrow> json \<Rightarrow> obj option \<Rightarrow> obj \<Rightarrow> obj" where
  "createOrderInput amt cur ctx d =
    [''amount'' \<mapsto> JNum amt,
     ''currency'' \<mapsto> cur,
     ''sessionId'' \<mapsto> idempotency_key ctx,
     ''items'' \<mapsto> field ''items'' d,
     ''shipping_info'' \<mapsto> field ''shipping_info'' d,
     ''email'' \<mapsto> field ''email'' d]"

subsection \<open>\<open>capturePayment\<close>\<close>

definition capturePayment_try ::
  "host \<Rightarrow> processor \<Rightarrow> PaymentInput \<Rightarrow> call list \<Rightarrow> (exn + obj) \<times> call list" where
  "capturePayment_try h P input hist =
    (case data input of
       None \<Rightarrow> (Inl (MedusaError INVALID_DATA ''Payment data is required''), hist)
     | Some d \<Rightarrow>
         if \<not> truthy (field ''id'' d) then
           (Inl (MedusaError INVALID_DATA ''PayPal order ID is required to capture payment''), hist)
         else if field ''status'' d = JStr (status_value h CAPTURED)
               \<or> field ''status'' d = JStr ''COMPLETED'' then
           (Inr [''data'' \<mapsto> JObj (d(
                    ''status'' \<mapsto> JStr (status_value h CAPTURED),
                    ''captured_at'' \<mapsto> JStr (toISOString_now h)))], hist)
         else
           (case captureOrder P hist (field ''id'' d) of
              Inl e \<Rightarrow> (Inl e, hist @ [CaptureOrder (field ''id'' d)])
            | Inr captured \<Rightarrow>
                (Inr [''data'' \<mapsto> JObj (d(
                         ''status'' \<mapsto> JStr (status_value h CAPTURED),
                         ''captured_at'' \<mapsto> JStr (toISOString_now h)))],
                 hist @ [CaptureOrder (field ''id'' d)])))"

definition capturePayment ::
  "host \<Rightarrow> processor \<Rightarrow> PaymentInput \<Rightarrow> call list \<Rightarrow> (exn + obj) \<times> call list" where
  "capturePayment h P input hist =
    (case capturePayment_try h P input hist of
       (Inl e, hist') \<Rightarrow> (Inl (MedusaError INVALID_DATA ''Failed to capture PayPal payment''), hist')
     | (Inr out, hist') \<Rightarrow> (Inr out, hist'))"

subsection \<open>\<open>authorizePayment\<close>\<close>

definition pending_output :: "host \<Rightarrow> obj \<Rightarrow> obj \<Rightarrow> json \<Rightarrow> obj" where
  "pending_output h d newOrder err =
    [''status'' \<mapsto> JStr (status_value h PENDING),
     ''data'' \<mapsto> JObj ((d ++ newOrder)(''error'' \<mapsto> err))]"

text \<open>\<open>err?.body || "{}"\<close>, as the text \<open>JSON.parse\<close> reads.\<close>

definition error_body_text :: "host \<Rightarrow> exn \<Rightarrow> string" where
  "error_body_text h err =
    (let err_body = (case err of ProcessorError v \<Rightarrow> opt ''body'' v | _ \<Rightarrow> JUndefined)
     in if truthy err_body then String_js h err_body else ''{}'')"

text \<open>The \<open>catch\<close> block around \<open>client.captureOrder\<close>; \<open>hist\<close> already holds the capture request.\<close>

definition capture_rejected ::
  "host \<Rightarrow> processor \<Rightarrow> PaymentInput \<Rightarrow> obj \<Rightarrow> exn \<Rightarrow> call list \<Rightarrow> (exn + obj) \<times> call list" where
  "capture_rejected h P input d err hist =
    (case JSON_parse h (error_body_text h err) of
       None \<Rightarrow> (Inl SyntaxError, hist)
     | Some body \<Rightarrow>
            (let captureData = error_body_capture body;
                 request = createOrderInput (Number_js h (field ''amount'' d))
                             (field ''currency_code'' d) (input_context input) d
             in case createOrder P hist request of
                  Inl e \<Rightarrow> (Inl e, hist @ [CreateOrder request])
                | Inr newOrder \<Rightarrow>
                    if \<not> truthy captureData then
                      (Inr (pending_output h d newOrder
                         (JObj [''code'' \<mapsto> JStr ''404'',
                                ''message'' \<mapsto> JStr declined_message,
                                ''retryable'' \<mapsto> JBool True])),
                       hist @ [CreateOrder request])
                    else
                      (let paymentStatus =
                             (if truthy (opt ''status'' captureData) then opt ''status'' captureData
                              else JStr ''DECLINED'');
                           processorResponse = opt ''processorResponse'' captureData;
                           checked = checkPaymentStatus h paymentStatus processorResponse
                       in (Inr (pending_output h d newOrder (field ''error'' checked)),
                           hist @ [CreateOrder request]))))"

text \<open>
  After \<open>client.captureOrder\<close> has returned \<open>paypalData\<close>; \<open>hist\<close> already holds the
  capture request.
\<close>

definition capture_returned ::
  "host \<Rightarrow> processor \<Rightarrow> PaymentInput \<Rightarrow> obj \<Rightarrow> obj \<Rightarrow> call list \<Rightarrow> (exn + obj) \<times> call list" where
  "capture_returned h P input d paypalData hist =
    (case first_capture paypalData of
       Inl e \<Rightarrow> (Inl e, hist)
     | Inr captureData \<Rightarrow>
         (let paymentStatus =
                (if truthy (opt ''status'' captureData) then opt ''status'' captureData
                 else JStr ''DECLINED'');
              processorResponse = opt ''processorResponse'' captureData;
              checked = checkPaymentStatus h paymentStatus processorResponse
          in if field ''status'' checked = JStr ''DECLINED'' then
               (let request = createOrderInput
                                (Number_js h (opt ''value'' (opt ''amount'' captureData)))
                                (opt ''currencyCode'' (opt ''amount'' captureData))
                                (input_context input) d
                in case createOrder P hist request of
                     Inl e \<Rightarrow> (Inl e, hist @ [CreateOrder request])
                   | Inr newOrder \<Rightarrow>
                       (Inr (pending_output h d newOrder (field ''error'' checked)),
                        hist @ [CreateOrder request]))
             else
               (Inr [''data'' \<mapsto> JObj paypalData,
                     ''status'' \<mapsto> JStr (status_value h AUTHORIZED)], hist)))"

definition authorizePayment ::
  "host \<Rightarrow> processor \<Rightarrow> PaymentInput \<Rightarrow> call list \<Rightarrow> (exn + obj) \<times> call list" where
  "authorizePayment h P input hist =
    (case data input of
       None \<Rightarrow> (Inl (MedusaError INVALID_DATA ''Payment data is required''), hist)
     | Some d \<Rightarrow>
         (let amount = field ''amount'' d;
              currencyCode = field ''currency_code'' d;
              orderId = field ''id'' d
          in if \<not> truthy orderId \<or> \<not> truthy amount \<or> \<not> truthy currencyCode then
               (Inl (MedusaError INVALID_DATA
                  ''PayPal order ID, Amount or Currency is missing, can not capture order.''), hist)
             else
               (case first_capture d of
                  Inl e \<Rightarrow> (Inl e, hist)
                | Inr capture \<Rightarrow>
                    if opt ''status'' capture = JStr ''COMPLETED'' then
                      (Inr [''data'' \<mapsto> JObj d,
                            ''status'' \<mapsto> JStr (status_value h AUTHORIZED)], hist)
                    else
                      (case captureOrder P hist orderId of
                         Inl err \<Rightarrow>
                           capture_rejected h P input d err (hist @ [CaptureOrder orderId])
                       | Inr paypalData \<Rightarrow>
                           capture_returned h P input d paypalData
                             (hist @ [CaptureOrder orderId])))))"

subsection \<open>\<open>cancelPayment\<close> and \<open>deletePayment\<close>\<close>

text \<open>Neither reaches the processor: they take no processor and no request history.\<close>

definition canceled_output :: "host \<Rightarrow> json \<Rightarrow> obj" where
  "canceled_output h orderId =
    [''data'' \<mapsto> JObj [''order_id'' \<mapsto> orderId,
                       ''status'' \<mapsto> JStr (status_value h CANCELED),
                       ''cancelled_at'' \<mapsto> JStr (toISOString_now h)]]"

definition cancelPayment_try :: "host \<Rightarrow> PaymentInput \<Rightarrow> exn + obj" where
  "cancelPayment_try h input =
    (case data input of
       None \<Rightarrow> Inl (MedusaError INVALID_DATA ''Payment data is required'')
     | Some d \<Rightarrow>
         if \<not> truthy (field ''id'' d) then
           Inl (MedusaError INVALID_DATA
             ''Cancel payment failed! PayPal order ID and capture ID is required to cancel payment'')
         else Inr (canceled_output h (field ''id'' d)))"

definition cancelPayment :: "host \<Rightarrow> PaymentInput \<Rightarrow> exn + obj" where
  "cancelPayment h input =
    (case cancelPayment_try h input of
       Inl e \<Rightarrow> Inl (MedusaError INVALID_DATA ''Failed to cancel PayPal payment'')
     | Inr out \<Rightarrow> Inr out)"

definition deletePayment :: "host \<Rightarrow> PaymentInput \<Rightarrow> exn + obj" where
  "deletePayment h input =
    (case data input of
       None \<Rightarrow> Inl (MedusaError INVALID_DATA ''Payment data is required'')
     | Some d \<Rightarrow>
         if \<not> truthy (field ''id'' d) then
           Inl (MedusaError INVALID_DATA
             ''Delete payment failed! PayPal order ID and capture ID is required to cancel payment'')
         else Inr (canceled_output h (field ''id'' d)))"

subsection \<open>\<open>initiatePayment\<close>\<close>

definition initiatePayment ::
  "host \<Rightarrow> processor \<Rightarrow> InitiatePaymentInput \<Rightarrow> call list \<Rightarrow> (exn + obj) \<times> call list" where
  "initiatePayment h P input hist =
    (case data input of
       None \<Rightarrow> (Inl (MedusaError INVALID_DATA ''Payment data is required''), hist)
     | Some d \<Rightarrow>
         if \<not> truthy (amount input) \<or> \<not> truthy (currency_code input) then
           (Inl (MedusaError INVALID_DATA ''Amount and currency code are required''), hist)
         else
           (let request = createOrderInput (Number_js h (amount input)) (currency_code input)
                            (input_context input) d
            in case createOrder P hist request of
                 Inl e \<Rightarrow> (Inl e, hist @ [CreateOrder request])
               | Inr order \<Rightarrow>
                   (Inr [''data'' \<mapsto> JObj ((d ++ order
                            ++ (case input_context input of None \<Rightarrow> Map.empty | Some c \<Rightarrow> c))(
                            ''amount'' \<mapsto> amount input,
                            ''currency_code'' \<mapsto> currency_code input)),
                         ''id'' \<mapsto> field ''id'' order],
                    hist @ [CreateOrder request])))"

subsection \<open>\<open>refundPayment\<close>\<close>

definition refundPayment_try ::
  "host \<Rightarrow> processor \<Rightarrow> PaymentInput \<Rightarrow> call list \<Rightarrow> (exn + obj) \<times> call list" where
  "refundPayment_try h P input hist =
    (case data input of
       None \<Rightarrow> (Inl (MedusaError INVALID_DATA ''Payment data is required''), hist)
     | Some d \<Rightarrow>
         (let orderId = field ''id'' d;
              purchaseUnits = (if truthy (field ''purchaseUnits'' d) then field ''purchaseUnits'' d
                               else JArr [])
          in case captureIds_of purchaseUnits of
               Inl e \<Rightarrow> (Inl e, hist)
             | Inr captureIds \<Rightarrow>
                 if \<not> truthy orderId \<or> \<not> truthy (JArr captureIds) then
                   (Inl (MedusaError INVALID_DATA
                      ''Refund payment failed! PayPal order ID and capture ID is required to cancel payment''),
                    hist)
                 else
                   (case PaypalService_refundPayment P captureIds [] hist of
                      (Inl e, hist') \<Rightarrow> (Inl e, hist')
                    | (Inr refunds, hist') \<Rightarrow> (Inr (canceled_output h orderId), hist'))))"

definition refundPayment ::
  "host \<Rightarrow> processor \<Rightarrow> PaymentInput \<Rightarrow> call list \<Rightarrow> (exn + obj) \<times> call list" where
  "refundPayment h P input hist =
    (case refundPayment_try h P input hist of
       (Inl e, hist') \<Rightarrow> (Inl (MedusaError INVALID_DATA ''Failed to refund PayPal payment''), hist')
     | (Inr out, hist') \<Rightarrow> (Inr out, hist'))"

subsection \<open>\<open>getPaymentStatus\<close>\<close>

definition getPaymentStatus ::
  "host \<Rightarrow> processor \<Rightarrow> PaymentInput \<Rightarrow> call list \<Rightarrow> (exn + obj) \<times> call list" where
  "getPaymentStatus h P input hist =
    (case data input of
       None \<Rightarrow> (Inl (MedusaError INVALID_DATA ''Payment data is required''), hist)
     | Some d \<Rightarrow>
         (let order_id = field ''id'' d in
          if \<not> truthy order_id then
            (Inl (MedusaError INVALID_DATA ''PayPal order ID is required to cancel payment''), hist)
          else
            (case retrieveOrder P hist order_id of
               Inl e \<Rightarrow> (Inl e, hist @ [RetrieveOrder order_id])
             | Inr order \<Rightarrow>
                 if \<not> truthy order \<or> \<not> truthy (opt ''status'' order) then
                   (Inl (MedusaError NOT_FOUND
                      (''PayPal order with ID '' @ String_js h order_id @ '' not found'')),
                    hist @ [RetrieveOrder order_id])
                 else
                   (Inr [''status'' \<mapsto>
                          JStr (status_value h
                            (if opt ''status'' order = JStr ''COMPLETED'' then CAPTURED
                             else AUTHORIZED))],
                    hist @ [RetrieveOrder order_id]))))"

section \<open>The webhook translator: \<open>getWebhookActionAndData\<close>\<close>

text \<open>
  \<open>{ session_id: d.resource.custom_id, amount: Number(d.resource.amount.value) }\<close>, written
  in both the \<open>try\<close> and the \<open>catch\<close> block.
\<close>

definition webhook_fields :: "host \<Rightarrow> json \<Rightarrow> exn + obj" where
  "webhook_fields h d =
    and_then (dot ''resource'' d) (\<lambda>r1.
    and_then (dot ''custom_id'' r1) (\<lambda>custom_id.
    and_then (dot ''resource'' d) (\<lambda>r2.
    and_then (dot ''amount'' r2) (\<lambda>amt.
    and_then (dot ''value'' amt) (\<lambda>v.
      Inr [''session_id'' \<mapsto> custom_id, ''amount'' \<mapsto> JNum (Number_js h v)])))))"

definition getWebhookActionAndData_try ::
  "host \<Rightarrow> processor \<Rightarrow> WebhookPayload \<Rightarrow> call list \<Rightarrow> exn + obj" where
  "getWebhookActionAndData_try h P payload hist =
    and_then (verifyWebhook P hist (headers payload) (payload_data payload)) (\<lambda>verified.
    and_then (dot ''event_type'' (payload_data payload)) (\<lambda>event_type.
      if event_type = JStr ''PAYMENT.CAPTURE.COMPLETED'' then
        and_then (webhook_fields h (payload_data payload)) (\<lambda>fields.
          Inr [''action'' \<mapsto> JStr ''captured'', ''data'' \<mapsto> JObj fields])
      else Inr [''action'' \<mapsto> JStr ''not_supported'']))"

definition getWebhookActionAndData ::
  "host \<Rightarrow> processor \<Rightarrow> WebhookPayload \<Rightarrow> call list \<Rightarrow> (exn + obj) \<times> call list" where
  "getWebhookActionAndData h P payload hist =
    (case getWebhookActionAndData_try h P payload hist of
       Inr out \<Rightarrow> (Inr out, hist @ [VerifyWebhook (headers payload) (payload_data payload)])
     | Inl e \<Rightarrow>
         (and_then (webhook_fields h (payload_data payload)) (\<lambda>fields.
            Inr [''action'' \<mapsto> JStr ''failed'', ''data'' \<mapsto> JObj fields]),
          hist @ [VerifyWebhook (headers payload) (payload_data payload)]))"

section \<open>Concrete hosts, processors and sessions\<close>

text \<open>
  The status strings the framework recognises, for a given host.
\<close>

definition framework_states :: "host \<Rightarrow> json set" where
  "framework_states h = (\<lambda>s. JStr (status_value h s)) ` set PaymentSessionStatuses"

text \<open>
  A host for the concrete evaluations below. Its functions agree with the built-ins on the
  arguments that occur there: \<open>JSON.parse\<close> on \<open>{}\<close> and on a text that is not JSON,
  \<open>Number\<close> on \<open>undefined\<close> and on \<open>"50.00"\<close>. The status strings are the lower-case
  names of the states.
\<close>

definition sample_host :: host where
  "sample_host =
    \<lparr>JSON_parse = (\<lambda>s. if s = ''{}'' then Some (JObj Map.empty) else None),
     ToNumber = (\<lambda>v. if v = JStr ''50.00'' then Fin 50 else NaN),
     ToString = (\<lambda>v. ''[object Object]''),
     toISOString_now = ''2025-01-01T00:00:00.000Z'',
     status_value = (\<lambda>s. case s of
         NOT_INITIATED \<Rightarrow> ''not_initiated''
       | PENDING \<Rightarrow> ''pending''
       | AUTHORIZED \<Rightarrow> ''authorized''
       | CAPTURED \<Rightarrow> ''captured''
       | CANCELED \<Rightarrow> ''canceled'')\<rparr>"

text \<open>A processor that refuses every request.\<close>

definition refusing_processor :: processor where
  "refusing_processor =
    \<lparr>captureOrder = (\<lambda>hist i. Inl (ProcessorError JUndefined)),
     createOrder = (\<lambda>hist request. Inl (ProcessorError JUndefined)),
     retrieveOrder = (\<lambda>hist i. Inl (ProcessorError JUndefined)),
     refundCapturedPayment = (\<lambda>hist i. Inl (ProcessorError JUndefined)),
     verifyWebhook = (\<lambda>hist hs body. Inl (ProcessorError JUndefined))\<rparr>"

definition sample_session :: obj where
  "sample_session =
    [''id'' \<mapsto> JStr ''O1'', ''amount'' \<mapsto> JNum (Fin 50), ''currency_code'' \<mapsto> JStr ''USD'']"

definition sample_input :: PaymentInput where
  "sample_input =
    \<lparr>data = Some sample_session,
     input_context = Some [''idempotency_key'' \<mapsto> JStr ''sess_1'']\<rparr>"

definition replacement_order :: obj where
  "replacement_order = [''id'' \<mapsto> JStr ''O2'', ''status'' \<mapsto> JStr ''CREATED'']"

text \<open>
  A captured order whose capture is declined for insufficient funds and carries no
  \<open>amount\<close> (the field is optional in the SDK's capture type).
\<close>

definition declined_order :: obj where
  "declined_order =
    [''id'' \<mapsto> JStr ''O1'',
     ''purchaseUnits'' \<mapsto> JArr [JObj [''payments'' \<mapsto> JObj [''captures'' \<mapsto> JArr
        [JObj [''id'' \<mapsto> JStr ''CAP1'',
               ''status'' \<mapsto> JStr ''DECLINED'',
               ''processorResponse'' \<mapsto> JObj [''responseCode'' \<mapsto> JStr ''5120'']]]]]]]"

text \<open>A processor that answers every request, and whose captures come back declined.\<close>

definition declining_processor :: processor where
  "declining_processor =
    \<lparr>captureOrder = (\<lambda>hist i. Inr declined_order),
     createOrder = (\<lambda>hist request. Inr replacement_order),
     retrieveOrder = (\<lambda>hist i. Inr (JObj [''id'' \<mapsto> i, ''status'' \<mapsto> JStr ''COMPLETED''])),
     refundCapturedPayment = (\<lambda>hist i. Inr (JObj [''status'' \<mapsto> JStr ''COMPLETED''])),
     verifyWebhook = (\<lambda>hist hs body. Inr ())\<rparr>"

text \<open>
  A processor whose capture request fails with a body that is not JSON, as a gateway in
  front of the processor sends it; it would create the replacement order if asked.
\<close>

definition gateway_error_processor :: processor where
  "gateway_error_processor =
    refusing_processor
      \<lparr>captureOrder := (\<lambda>hist i. Inl (ProcessorError
          (JObj [''body'' \<mapsto> JStr ''<html>Bad Gateway</html>'']))),
       createOrder := (\<lambda>hist request. Inr replacement_order)\<rparr>"

definition completed_session :: obj where
  "completed_session =
    [''id'' \<mapsto> JStr ''O1'',
     ''amount'' \<mapsto> JNum (Fin 50),
     ''currency_code'' \<mapsto> JStr ''USD'',
     ''status'' \<mapsto> JStr ''COMPLETED'',
     ''purchaseUnits'' \<mapsto> JArr [JObj [''payments'' \<mapsto> JObj [''captures'' \<mapsto> JArr
        [JObj [''id'' \<mapsto> JStr ''CAP1'', ''status'' \<mapsto> JStr ''COMPLETED'']]]]]]"

definition completed_input :: PaymentInput where
  "completed_input = \<lparr>data = Some completed_session, input_context = None\<rparr>"

definition zero_amount_session :: obj where
  "zero_amount_session =
    [''id'' \<mapsto> JStr ''O1'', ''amount'' \<mapsto> JNum (Fin 0), ''currency_code'' \<mapsto> JStr ''USD'']"

definition no_captures_session :: obj where
  "no_captures_session = [''id'' \<mapsto> JStr ''O1'', ''purchaseUnits'' \<mapsto> JArr []]"

definition capture_completed_event :: json where
  "capture_completed_event =
    JObj [''event_type'' \<mapsto> JStr ''PAYMENT.CAPTURE.COMPLETED'',
          ''resource'' \<mapsto> JObj
            [''id'' \<mapsto> JStr ''CAP1'',
             ''status'' \<mapsto> JStr ''COMPLETED'',
             ''amount'' \<mapsto> JObj [''value'' \<mapsto> JStr ''50.00'', ''currency_code'' \<mapsto> JStr ''USD''],
             ''custom_id'' \<mapsto> JStr ''sess_1'']]"

text \<open>
  An event of another type, as the processor sends it when the payer approves an order:
  its resource is the order and has no \<open>amount\<close>.
\<close>

definition order_approved_event :: json where
  "order_approved_event =
    JObj [''event_type'' \<mapsto> JStr ''CHECKOUT.ORDER.APPROVED'',
          ''resource'' \<mapsto> JObj
            [''id'' \<mapsto> JStr ''O1'',
             ''status'' \<mapsto> JStr ''APPROVED'',
             ''custom_id'' \<mapsto> JStr ''sess_1'']]"

definition sample_initiate_input :: InitiatePaymentInput where
  "sample_initiate_input =
    \<lparr>data = Some Map.empty,
     input_context = Some [''idempotency_key'' \<mapsto> JStr ''sess_1''],
     amount = JNum (Fin 50),
     currency_code = JStr ''USD''\<rparr>"

section \<open>The paths of \<open>authorizePayment\<close>\<close>

text \<open>
  When the capture request itself fails and the error carries no body or a body that is
  JSON, one order is requested, for the amount and currency of the session and the
  idempotency key of the call; if the processor creates it, the result is \<open>PENDING\<close>, with
  the descriptor \<open>404\<close> (retryable) when the body holds no capture and the classifier's
  descriptor for the capture it holds otherwise.
\<close>

lemma authorizePayment_capture_rejected:
  assumes "data input = Some d"
      and "truthy (field ''id'' d)" and "truthy (field ''amount'' d)"
      and "truthy (field ''currency_code'' d)"
      and "first_capture d = Inr old" and "opt ''status'' old \<noteq> JStr ''COMPLETED''"
      and "captureOrder P hist (field ''id'' d) = Inl err"
      and "JSON_parse h (error_body_text h err) = Some body"
      and "captureData = error_body_capture body"
      and "request = createOrderInput (Number_js h (field ''amount'' d))
             (field ''currency_code'' d) (input_context input) d"
  shows "authorizePayment h P input hist =
           (case createOrder P (hist @ [CaptureOrder (field ''id'' d)]) request of
              Inl e \<Rightarrow> Inl e
            | Inr newOrder \<Rightarrow>
                Inr (pending_output h d newOrder
                  (if truthy captureData then
                     field ''error'' (checkPaymentStatus h
                       (if truthy (opt ''status'' captureData) then opt ''status'' captureData
                        else JStr ''DECLINED'')
                       (opt ''processorResponse'' captureData))
                   else JObj [''code'' \<mapsto> JStr ''404'',
                              ''message'' \<mapsto> JStr declined_message,
                              ''retryable'' \<mapsto> JBool True])),
            hist @ [CaptureOrder (field ''id'' d), CreateOrder request])"
  using assms
  by (simp add: authorizePayment_def capture_rejected_def Let_def split: sum.splits)

text \<open>When the capture request returns a completed capture, the result is \<open>AUTHORIZED\<close>
  with the captured order as data, after that one request.\<close>

lemma authorizePayment_capture_completed:
  assumes "data input = Some d"
      and "truthy (field ''id'' d)" and "truthy (field ''amount'' d)"
      and "truthy (field ''currency_code'' d)"
      and "first_capture d = Inr old" and "opt ''status'' old \<noteq> JStr ''COMPLETED''"
      and "captureOrder P hist (field ''id'' d) = Inr paypalData"
      and "first_capture paypalData = Inr captureData"
      and "opt ''status'' captureData = JStr ''COMPLETED''"
  shows "authorizePayment h P input hist =
           (Inr [''data'' \<mapsto> JObj paypalData, ''status'' \<mapsto> JStr (status_value h AUTHORIZED)],
            hist @ [CaptureOrder (field ''id'' d)])"
  using assms
  by (simp add: authorizePayment_def capture_returned_def checkPaymentStatus_def field_def Let_def)

section \<open>Claims about \<open>authorizePayment\<close>\<close>

text \<open>
  Claim C1. When the capture succeeds and its capture classifies as \<open>DECLINED\<close>, the
  replacement order is to have the amount and currency of the original request. In the
  code, one order is requested, with the idempotency key of the call but with the amount
  and currency \<^emph>\<open>of the capture the processor returned\<close>, where the \<open>catch\<close> branch takes
  them from the session (\<open>authorizePayment_capture_rejected\<close>); if the processor creates
  the order, the result is \<open>PENDING\<close> with the new order spread over the session data and
  the classifier's descriptor as \<open>error\<close>.
\<close>

theorem authorizePayment_capture_declined:
  assumes "data input = Some d"
      and "truthy (field ''id'' d)" and "truthy (field ''amount'' d)"
      and "truthy (field ''currency_code'' d)"
      and "first_capture d = Inr old" and "opt ''status'' old \<noteq> JStr ''COMPLETED''"
      and "captureOrder P hist (field ''id'' d) = Inr paypalData"
      and "first_capture paypalData = Inr captureData"
      and "checked = checkPaymentStatus h
             (if truthy (opt ''status'' captureData) then opt ''status'' captureData
              else JStr ''DECLINED'')
             (opt ''processorResponse'' captureData)"
      and "field ''status'' checked = JStr ''DECLINED''"
      and "request = createOrderInput (Number_js h (opt ''value'' (opt ''amount'' captureData)))
             (opt ''currencyCode'' (opt ''amount'' captureData)) (input_context input) d"
  shows "authorizePayment h P input hist =
           (case createOrder P (hist @ [CaptureOrder (field ''id'' d)]) request of
              Inl e \<Rightarrow> Inl e
            | Inr newOrder \<Rightarrow> Inr (pending_output h d newOrder (field ''error'' checked)),
            hist @ [CaptureOrder (field ''id'' d), CreateOrder request])"
  using assms
  by (simp add: authorizePayment_def capture_returned_def Let_def split: sum.splits)

text \<open>
  Claim C1 on a session for 50 USD whose capture comes back declined and carries no amount:
  the order requested has the amount \<open>NaN\<close> and no currency.
\<close>

theorem authorizePayment_declined_replacement_amount:
  "field ''amount'' sample_session = JNum (Fin 50) \<and>
   field ''currency_code'' sample_session = JStr ''USD'' \<and>
   authorizePayment sample_host declining_processor sample_input [] =
     (Inr (pending_output sample_host sample_session replacement_order
        (JObj [''code'' \<mapsto> JStr ''5120 - INSUFFICIENT_FUNDS'',
               ''message'' \<mapsto> JStr ''Insufficient funds. Please try again or use a different card.'',
               ''retryable'' \<mapsto> JBool True,
               ''avsCode'' \<mapsto> JUndefined,
               ''cvvCode'' \<mapsto> JUndefined])),
      [CaptureOrder (JStr ''O1''),
       CreateOrder [''amount'' \<mapsto> JNum NaN,
                    ''currency'' \<mapsto> JUndefined,
                    ''sessionId'' \<mapsto> JStr ''sess_1'',
                    ''items'' \<mapsto> JUndefined,
                    ''shipping_info'' \<mapsto> JUndefined,
                    ''email'' \<mapsto> JUndefined]])"
proof -
  let ?capture = "JObj [''id'' \<mapsto> JStr ''CAP1'',
                        ''status'' \<mapsto> JStr ''DECLINED'',
                        ''processorResponse'' \<mapsto> JObj [''responseCode'' \<mapsto> JStr ''5120'']]"
  let ?error = "JObj [''code'' \<mapsto> JStr ''5120 - INSUFFICIENT_FUNDS'',
               ''message'' \<mapsto> JStr ''Insufficient funds. Please try again or use a different card.'',
               ''retryable'' \<mapsto> JBool True,
               ''avsCode'' \<mapsto> JUndefined,
               ''cvvCode'' \<mapsto> JUndefined]"
  let ?checked = "[''status'' \<mapsto> JStr ''DECLINED'', ''error'' \<mapsto> ?error]"
  let ?request = "[''amount'' \<mapsto> JNum NaN,
                    ''currency'' \<mapsto> JUndefined,
                    ''sessionId'' \<mapsto> JStr ''sess_1'',
                    ''items'' \<mapsto> JUndefined,
                    ''shipping_info'' \<mapsto> JUndefined,
                    ''email'' \<mapsto> JUndefined]"
  have s: "field ''id'' sample_session = JStr ''O1''"
      "field ''amount'' sample_session = JNum (Fin 50)"
      "field ''currency_code'' sample_session = JStr ''USD''"
      "field ''items'' sample_session = JUndefined"
      "field ''shipping_info'' sample_session = JUndefined"
      "field ''email'' sample_session = JUndefined"
    by (simp_all add: sample_session_def field_def)
  have a: "data sample_input = Some sample_session"
    by (simp add: sample_input_def)
  have t: "truthy (field ''id'' sample_session)" "truthy (field ''amount'' sample_session)"
      "truthy (field ''currency_code'' sample_session)"
    by (simp_all add: s)
  have old: "first_capture sample_session = Inr JUndefined"
    by (simp add: first_capture_def sample_session_def field_def)
  have nc: "opt ''status'' JUndefined \<noteq> JStr ''COMPLETED''"
    by simp
  have cap: "captureOrder declining_processor [] (field ''id'' sample_session) = Inr declined_order"
    by (simp add: declining_processor_def)
  have fc: "first_capture declined_order = Inr ?capture"
    by (simp add: first_capture_def declined_order_def field_def)
  have chk: "?checked = checkPaymentStatus sample_host
             (if truthy (opt ''status'' ?capture) then opt ''status'' ?capture
              else JStr ''DECLINED'')
             (opt ''processorResponse'' ?capture)"
    by (simp add: checkPaymentStatus_def processorResponseMap_def String_js_def field_def)
  have st: "field ''status'' ?checked = JStr ''DECLINED''"
    by (simp add: field_def)
  have er: "field ''error'' ?checked = ?error"
    by (simp add: field_def)
  have rq: "?request = createOrderInput
             (Number_js sample_host (opt ''value'' (opt ''amount'' ?capture)))
             (opt ''currencyCode'' (opt ''amount'' ?capture)) (input_context sample_input)
             sample_session"
    by (simp add: createOrderInput_def idempotency_key_def Number_js_def sample_host_def
        sample_input_def s, simp add: field_def)
  have cr: "createOrder declining_processor ([] @ [CaptureOrder (field ''id'' sample_session)])
      ?request = Inr replacement_order"
    by (simp add: declining_processor_def)
  show ?thesis
    using authorizePayment_capture_declined
      [OF a t old nc cap fc chk st rq] cr
    by (simp add: er s)
qed

text \<open>
  Claim C2. When the capture request itself fails, the result is to be \<open>PENDING\<close> with a
  decline descriptor and a replacement order, whatever the error carries. The code does so
  when the error has no body or a JSON body (\<open>authorizePayment_capture_rejected\<close>). When
  the body is a text that is not JSON, \<open>JSON.parse\<close> throws inside the \<open>catch\<close> block:
  the \<open>SyntaxError\<close> leaves \<open>authorizePayment\<close>, and no order is requested.
\<close>

theorem authorizePayment_unparsable_error_body:
  assumes "data input = Some d"
      and "truthy (field ''id'' d)" and "truthy (field ''amount'' d)"
      and "truthy (field ''currency_code'' d)"
      and "first_capture d = Inr old" and "opt ''status'' old \<noteq> JStr ''COMPLETED''"
      and "captureOrder P hist (field ''id'' d) = Inl err"
      and "JSON_parse h (error_body_text h err) = None"
  shows "authorizePayment h P input hist =
           (Inl SyntaxError, hist @ [CaptureOrder (field ''id'' d)])"
  using assms
  by (simp add: authorizePayment_def capture_rejected_def Let_def)

text \<open>
  Claim C2 on a capture request that fails with the body of a gateway's error page, at a
  processor that would create the replacement order.
\<close>

theorem authorizePayment_unparsable_error_body_witness:
  "error_body_text sample_host
       (ProcessorError (JObj [''body'' \<mapsto> JStr ''<html>Bad Gateway</html>'']))
     = ''<html>Bad Gateway</html>'' \<and>
   JSON_parse sample_host ''<html>Bad Gateway</html>'' = None \<and>
   authorizePayment sample_host gateway_error_processor sample_input [] =
     (Inl SyntaxError, [CaptureOrder (JStr ''O1'')])"
proof -
  let ?err = "ProcessorError (JObj [''body'' \<mapsto> JStr ''<html>Bad Gateway</html>''])"
  have s: "field ''id'' sample_session = JStr ''O1''"
      "field ''amount'' sample_session = JNum (Fin 50)"
      "field ''currency_code'' sample_session = JStr ''USD''"
    by (simp_all add: sample_session_def field_def)
  have a: "data sample_input = Some sample_session"
    by (simp add: sample_input_def)
  have t: "truthy (field ''id'' sample_session)" "truthy (field ''amount'' sample_session)"
      "truthy (field ''currency_code'' sample_session)"
    by (simp_all add: s)
  have old: "first_capture sample_session = Inr JUndefined"
    by (simp add: first_capture_def sample_session_def field_def)
  have nc: "opt ''status'' JUndefined \<noteq> JStr ''COMPLETED''"
    by simp
  have cap: "captureOrder gateway_error_processor [] (field ''id'' sample_session) = Inl ?err"
    by (simp add: gateway_error_processor_def refusing_processor_def)
  have bt: "error_body_text sample_host ?err = ''<html>Bad Gateway</html>''"
    by (simp add: error_body_text_def String_js_def field_def)
  have np: "JSON_parse sample_host ''<html>Bad Gateway</html>'' = None"
    by (simp add: sample_host_def)
  have np': "JSON_parse sample_host (error_body_text sample_host ?err) = None"
    by (simp only: bt np)
  show ?thesis
    using authorizePayment_unparsable_error_body[OF a t old nc cap np'] bt np
    by (simp add: s)
qed



text \<open>
  Claim C10. For a session with an order id whose amount is the number 0, or whose
  currency code is the empty string, \<open>authorizePayment\<close> throws the invalid-data error
  and sends nothing to the processor: the check is for truthiness, not for presence.
\<close>

theorem authorizePayment_zero_amount_or_empty_currency:
  assumes "data input = Some d"
      and "truthy (field ''id'' d)"
      and "field ''amount'' d = JNum (Fin 0) \<or> field ''currency_code'' d = JStr ''''"
  shows "authorizePayment h P input hist =
           (Inl (MedusaError INVALID_DATA
              ''PayPal order ID, Amount or Currency is missing, can not capture order.''), hist)"
  using assms by (auto simp add: authorizePayment_def Let_def)

text \<open>Claim C10 at a session for the amount 0.\<close>

theorem authorizePayment_zero_amount_witness:
  "truthy (field ''id'' zero_amount_session) \<and>
   field ''amount'' zero_amount_session = JNum (Fin 0) \<and>
   authorizePayment sample_host declining_processor
       \<lparr>data = Some zero_amount_session, input_context = None\<rparr> [] =
     (Inl (MedusaError INVALID_DATA
        ''PayPal order ID, Amount or Currency is missing, can not capture order.''), [])"
proof -
  have a: "truthy (field ''id'' zero_amount_session)"
    by (simp add: zero_amount_session_def field_def)
  have b: "field ''amount'' zero_amount_session = JNum (Fin 0)"
    by (simp add: zero_amount_session_def field_def)
  show ?thesis
    using a b authorizePayment_zero_amount_or_empty_currency
      [of "\<lparr>data = Some zero_amount_session, input_context = None\<rparr>" zero_amount_session
          sample_host declining_processor "[]"]
    by simp
qed

section \<open>Claims about \<open>capturePayment\<close> and \<open>refundPayment\<close>\<close>

text \<open>
  Claim C7. For a session whose status is \<open>CAPTURED\<close> or \<open>COMPLETED\<close>, \<open>capturePayment\<close>
  sends nothing to the processor; the order id being set, it returns the session data with
  status \<open>CAPTURED\<close> and a capture timestamp, and called again on that data (at a later
  time, with any processor) it returns status \<open>CAPTURED\<close> again and sends nothing.
\<close>

theorem capturePayment_idempotent:
  assumes "data input = Some d"
      and "field ''status'' d = JStr (status_value h CAPTURED)
           \<or> field ''status'' d = JStr ''COMPLETED''"
  shows "snd (capturePayment h P input hist) = hist \<and>
         (truthy (field ''id'' d) \<longrightarrow>
            capturePayment h P input hist =
              (Inr [''data'' \<mapsto> JObj (d(''status'' \<mapsto> JStr (status_value h CAPTURED),
                                          ''captured_at'' \<mapsto> JStr (toISOString_now h)))], hist) \<and>
            (status_value h' = status_value h \<longrightarrow>
             capturePayment h' P'
                 (input\<lparr>data := Some (d(''status'' \<mapsto> JStr (status_value h CAPTURED),
                                         ''captured_at'' \<mapsto> JStr (toISOString_now h)))\<rparr>) hist' =
              (Inr [''data'' \<mapsto> JObj (d(''status'' \<mapsto> JStr (status_value h CAPTURED),
                                          ''captured_at'' \<mapsto> JStr (toISOString_now h')))], hist')))"
  using assms
  by (auto simp add: capturePayment_def capturePayment_try_def field_def)

text \<open>Claim C7 at a completed session, captured twice with a processor that would decline.\<close>

theorem capturePayment_idempotent_witness:
  "data completed_input = Some completed_session \<and>
   field ''status'' completed_session = JStr ''COMPLETED'' \<and>
   truthy (field ''id'' completed_session) \<and>
   capturePayment sample_host declining_processor completed_input [] =
     (Inr [''data'' \<mapsto> JObj (completed_session(
              ''status'' \<mapsto> JStr (status_value sample_host CAPTURED),
              ''captured_at'' \<mapsto> JStr (toISOString_now sample_host)))], []) \<and>
   capturePayment sample_host declining_processor
       (completed_input\<lparr>data := Some (completed_session(
              ''status'' \<mapsto> JStr (status_value sample_host CAPTURED),
              ''captured_at'' \<mapsto> JStr (toISOString_now sample_host)))\<rparr>) [] =
     (Inr [''data'' \<mapsto> JObj (completed_session(
              ''status'' \<mapsto> JStr (status_value sample_host CAPTURED),
              ''captured_at'' \<mapsto> JStr (toISOString_now sample_host)))], [])"
proof -
  have a: "data completed_input = Some completed_session"
    by (simp add: completed_input_def)
  have b: "field ''status'' completed_session = JStr ''COMPLETED''"
    by (simp add: completed_session_def field_def)
  have c: "truthy (field ''id'' completed_session)"
    by (simp add: completed_session_def field_def)
  show ?thesis
    using a b c capturePayment_idempotent[OF a, where h = sample_host and h' = sample_host
        and P = declining_processor and P' = declining_processor and hist = "[]" and hist' = "[]"]
    by simp
qed

text \<open>
  Claim C4. A session whose purchase units yield no capture id is to make \<open>refundPayment\<close>
  fail. The code guards with \<open>!captureIds\<close>, and an empty array is truthy: with an order
  id set, \<open>refundPayment\<close> returns the session as \<open>CANCELED\<close>. It sends nothing to the refund
  endpoint, the loop of \<open>PaypalService.refundPayment\<close> running over no id.
\<close>

theorem refundPayment_without_capture_ids:
  assumes "data input = Some d"
      and "truthy (field ''id'' d)"
      and "captureIds_of (if truthy (field ''purchaseUnits'' d) then field ''purchaseUnits'' d
                          else JArr []) = Inr []"
  shows "refundPayment h P input hist = (Inr (canceled_output h (field ''id'' d)), hist)"
  using assms by (simp add: refundPayment_def refundPayment_try_def Let_def)

text \<open>Claim C4 at a session with an order id and an empty list of purchase units.\<close>

theorem refundPayment_without_capture_ids_witness:
  "truthy (field ''id'' no_captures_session) \<and>
   captureIds_of (field ''purchaseUnits'' no_captures_session) = Inr [] \<and>
   refundPayment sample_host refusing_processor
       \<lparr>data = Some no_captures_session, input_context = None\<rparr> [] =
     (Inr [''data'' \<mapsto> JObj [''order_id'' \<mapsto> JStr ''O1'',
                              ''status'' \<mapsto> JStr ''canceled'',
                              ''cancelled_at'' \<mapsto> JStr ''2025-01-01T00:00:00.000Z'']], [])"
proof -
  have a: "truthy (field ''id'' no_captures_session)"
    by (simp add: no_captures_session_def field_def)
  have p: "field ''purchaseUnits'' no_captures_session = JArr []"
    by (simp add: no_captures_session_def field_def)
  have b: "captureIds_of (field ''purchaseUnits'' no_captures_session) = Inr []"
    by (simp add: p captureIds_of_def and_then_def flatten1_def)
  have i: "field ''id'' no_captures_session = JStr ''O1''"
    by (simp add: no_captures_session_def field_def)
  show ?thesis
    using a b refundPayment_without_capture_ids
      [of "\<lparr>data = Some no_captures_session, input_context = None\<rparr>" no_captures_session
          sample_host refusing_processor "[]"]
    by (simp add: p i canceled_output_def sample_host_def)
qed

section \<open>Claims about the decline classifier\<close>

text \<open>
  Claim C5. For each of the seven response codes of the table, classifying a \<open>DECLINED\<close>
  capture returns the code, message and retryable flag of the table entry, together with
  the AVS and CVV codes of the processor response.
\<close>

theorem checkPaymentStatus_table_entry:
  assumes "c \<in> set [''0500'', ''9500'', ''5400'', ''5120'', ''00N7'', ''1330'', ''5100'']"
      and "opt ''responseCode'' resp = JStr c"
  shows "\<exists>entry. processorResponseMap c = Some entry \<and>
         checkPaymentStatus h (JStr ''DECLINED'') resp =
           [''status'' \<mapsto> JStr ''DECLINED'',
            ''error'' \<mapsto> JObj [''code'' \<mapsto> field ''code'' entry,
                               ''message'' \<mapsto> field ''message'' entry,
                               ''retryable'' \<mapsto> field ''retryable'' entry,
                               ''avsCode'' \<mapsto> opt ''avsCode'' resp,
                               ''cvvCode'' \<mapsto> opt ''cvvCode'' resp]]"
  using assms
  by (auto simp: checkPaymentStatus_def processorResponseMap_def String_js_def field_def)

text \<open>Claim C5 at the code 5120 with an AVS code and no CVV code.\<close>

theorem checkPaymentStatus_table_entry_witness:
  "checkPaymentStatus sample_host (JStr ''DECLINED'')
      (JObj [''responseCode'' \<mapsto> JStr ''5120'', ''avsCode'' \<mapsto> JStr ''Y'']) =
     [''status'' \<mapsto> JStr ''DECLINED'',
      ''error'' \<mapsto> JObj [''code'' \<mapsto> JStr ''5120 - INSUFFICIENT_FUNDS'',
                         ''message'' \<mapsto> JStr ''Insufficient funds. Please try again or use a different card.'',
                         ''retryable'' \<mapsto> JBool True,
                         ''avsCode'' \<mapsto> JStr ''Y'',
                         ''cvvCode'' \<mapsto> JUndefined]]"
proof -
  have a: "''5120'' \<in> set [''0500'', ''9500'', ''5400'', ''5120'', ''00N7'', ''1330'', ''5100'']"
    by simp
  have b: "opt ''responseCode'' (JObj [''responseCode'' \<mapsto> JStr ''5120'', ''avsCode'' \<mapsto> JStr ''Y''])
      = JStr ''5120''"
    by (simp add: field_def)
  from checkPaymentStatus_table_entry[OF a b, of sample_host]
  show ?thesis
    by (auto simp add: processorResponseMap_def field_def)
qed

text \<open>
  Claim C6, as the code has it. For a response code that is not in the table (and does not
  name a member every object inherits), classifying a \<open>DECLINED\<close> capture returns a
  descriptor that is not retryable, whose \<open>code\<close> is the response code and whose message
  is the fixed text \<open>declined_message\<close>, with the AVS and CVV codes of the response; for the
  empty code the descriptor has the code \<open>DECLINED\<close> and no AVS or CVV code.
\<close>

theorem checkPaymentStatus_unlisted_code:
  assumes "opt ''responseCode'' resp = JStr c"
      and "processorResponseMap c = None"
      and "c \<notin> set Object_prototype_members"
  shows "checkPaymentStatus h (JStr ''DECLINED'') resp =
           [''status'' \<mapsto> JStr ''DECLINED'',
            ''error'' \<mapsto> JObj
              (if c = [] then
                 [''code'' \<mapsto> JStr ''DECLINED'',
                  ''message'' \<mapsto> JStr declined_message,
                  ''retryable'' \<mapsto> JBool False]
               else
                 [''code'' \<mapsto> JStr c,
                  ''message'' \<mapsto> JStr declined_message,
                  ''retryable'' \<mapsto> JBool False,
                  ''avsCode'' \<mapsto> opt ''avsCode'' resp,
                  ''cvvCode'' \<mapsto> opt ''cvvCode'' resp])]"
  using assms by (simp add: checkPaymentStatus_def String_js_def)

text \<open>Claim C6, as the code has it, at the code 9999.\<close>

theorem checkPaymentStatus_unlisted_code_witness:
  "processorResponseMap ''9999'' = None \<and>
   ''9999'' \<notin> set Object_prototype_members \<and>
   checkPaymentStatus sample_host (JStr ''DECLINED'') (JObj [''responseCode'' \<mapsto> JStr ''9999'']) =
     [''status'' \<mapsto> JStr ''DECLINED'',
      ''error'' \<mapsto> JObj [''code'' \<mapsto> JStr ''9999'',
                         ''message'' \<mapsto> JStr declined_message,
                         ''retryable'' \<mapsto> JBool False,
                         ''avsCode'' \<mapsto> JUndefined,
                         ''cvvCode'' \<mapsto> JUndefined]]"
proof -
  have a: "opt ''responseCode'' (JObj [''responseCode'' \<mapsto> JStr ''9999'']) = JStr ''9999''"
    by (simp add: field_def)
  have b: "processorResponseMap ''9999'' = None"
    by (simp add: processorResponseMap_def)
  have c: "''9999'' \<notin> set Object_prototype_members"
    by (simp add: Object_prototype_members_def)
  from checkPaymentStatus_unlisted_code[OF a b c, of sample_host] b c
  show ?thesis by (simp add: field_def)
qed

text \<open>
  Claim C6 as stated fails: for the code 9999, which is not in the table, the message of
  the descriptor is the fixed text, and the code does not occur in it.
\<close>

theorem checkPaymentStatus_message_omits_code:
  "processorResponseMap ''9999'' = None \<and>
   opt ''message'' (field ''error''
     (checkPaymentStatus sample_host (JStr ''DECLINED'') (JObj [''responseCode'' \<mapsto> JStr ''9999''])))
     = JStr declined_message \<and>
   \<not> sublist ''9999'' declined_message"
  by (simp add: checkPaymentStatus_def processorResponseMap_def String_js_def field_def
      Object_prototype_members_def declined_message_def sublist_code prefix_code)

section \<open>Claims about the webhook translator\<close>

lemma webhook_fields_typed:
  assumes "\<not> nullish (opt ''amount'' (opt ''resource'' d))"
  shows "webhook_fields h d =
     Inr [''session_id'' \<mapsto> opt ''custom_id'' (opt ''resource'' d),
          ''amount'' \<mapsto> JNum (Number_js h (opt ''value'' (opt ''amount'' (opt ''resource'' d))))]"
proof -
  obtain r where r: "opt ''resource'' d = JObj r"
    using assms by (cases "opt ''resource'' d") auto
  then obtain m where m: "d = JObj m"
    by (cases d) auto
  show ?thesis
    using assms r m by (simp add: webhook_fields_def and_then_def dot_def)
qed

text \<open>
  For a payload of the declared shape (its resource carries an amount): when the
  signature verifies and the event type is \<open>PAYMENT.CAPTURE.COMPLETED\<close>, the translator
  returns the action \<open>captured\<close> with \<open>session_id\<close> the resource's \<open>custom_id\<close> and
  \<open>amount\<close> the number \<open>Number\<close> makes of the resource's amount value; when the verification
  fails, it returns the action \<open>failed\<close> with the same two fields.
\<close>

lemma getWebhookActionAndData_translation:
  assumes "payload_data payload = d"
      and "\<not> nullish (opt ''amount'' (opt ''resource'' d))"
  shows "(verifyWebhook P hist (headers payload) d = Inr ()
            \<and> opt ''event_type'' d = JStr ''PAYMENT.CAPTURE.COMPLETED'' \<longrightarrow>
          fst (getWebhookActionAndData h P payload hist) =
            Inr [''action'' \<mapsto> JStr ''captured'',
                 ''data'' \<mapsto> JObj
                   [''session_id'' \<mapsto> opt ''custom_id'' (opt ''resource'' d),
                    ''amount'' \<mapsto> JNum (Number_js h (opt ''value'' (opt ''amount'' (opt ''resource'' d))))]])
       \<and> (verifyWebhook P hist (headers payload) d = Inl e \<longrightarrow>
          fst (getWebhookActionAndData h P payload hist) =
            Inr [''action'' \<mapsto> JStr ''failed'',
                 ''data'' \<mapsto> JObj
                   [''session_id'' \<mapsto> opt ''custom_id'' (opt ''resource'' d),
                    ''amount'' \<mapsto> JNum (Number_js h (opt ''value'' (opt ''amount'' (opt ''resource'' d))))]])"
proof -
  obtain r where r: "opt ''resource'' d = JObj r"
    using assms(2) by (cases "opt ''resource'' d") auto
  then have nd: "\<not> nullish d"
    by (cases d) auto
  show ?thesis
    using assms(1) nd webhook_fields_typed[OF assms(2), of h]
    by (simp add: getWebhookActionAndData_def getWebhookActionAndData_try_def and_then_def dot_def)
qed

text \<open>
  The two results at a \<open>PAYMENT.CAPTURE.COMPLETED\<close> event for 50.00 USD and the session
  \<open>sess_1\<close>, once with a processor that verifies it and once with one that does not.
\<close>

lemma getWebhookActionAndData_translation_sample:
  "fst (getWebhookActionAndData sample_host declining_processor
          \<lparr>payload_data = capture_completed_event, headers = Map.empty\<rparr> []) =
     Inr [''action'' \<mapsto> JStr ''captured'',
          ''data'' \<mapsto> JObj [''session_id'' \<mapsto> JStr ''sess_1'', ''amount'' \<mapsto> JNum (Fin 50)]]
   \<and> fst (getWebhookActionAndData sample_host refusing_processor
          \<lparr>payload_data = capture_completed_event, headers = Map.empty\<rparr> []) =
     Inr [''action'' \<mapsto> JStr ''failed'',
          ''data'' \<mapsto> JObj [''session_id'' \<mapsto> JStr ''sess_1'', ''amount'' \<mapsto> JNum (Fin 50)]]"
proof -
  have a: "payload_data \<lparr>payload_data = capture_completed_event, headers = Map.empty\<rparr>
      = capture_completed_event"
    by simp
  have b: "\<not> nullish (opt ''amount'' (opt ''resource'' capture_completed_event))"
    by (simp add: capture_completed_event_def field_def)
  have v: "opt ''value'' (opt ''amount'' (opt ''resource'' capture_completed_event)) = JStr ''50.00''"
    by (simp add: capture_completed_event_def field_def)
  have c: "opt ''custom_id'' (opt ''resource'' capture_completed_event) = JStr ''sess_1''"
    by (simp add: capture_completed_event_def field_def)
  have t: "opt ''event_type'' capture_completed_event = JStr ''PAYMENT.CAPTURE.COMPLETED''"
    by (simp add: capture_completed_event_def field_def)
  have n: "Number_js sample_host (JStr ''50.00'') = Fin 50"
    by (simp add: Number_js_def sample_host_def)
  show ?thesis
    using getWebhookActionAndData_translation[OF a b, where P = declining_processor
        and hist = "[]" and h = sample_host]
      getWebhookActionAndData_translation[OF a b, where P = refusing_processor
        and hist = "[]" and h = sample_host and e = "ProcessorError JUndefined"]
    by (simp add: v c t n declining_processor_def refusing_processor_def)
qed

lemma webhook_fields_without_amount:
  assumes "nullish (opt ''amount'' (opt ''resource'' d))"
  shows "webhook_fields h d = Inl TypeError"
proof (cases "nullish (opt ''resource'' d)")
  case True
  then show ?thesis
    by (simp add: webhook_fields_def and_then_def dot_def)
next
  case False
  then have nd: "\<not> nullish d"
    by (cases d) auto
  show ?thesis
    using assms False nd by (simp add: webhook_fields_def and_then_def dot_def)
qed

text \<open>
  Claim C8. Every payload whose signature does not verify is to give the action \<open>failed\<close>
  with the resource's \<open>custom_id\<close> and amount, and the handler is never to throw. The code
  does so when the resource carries an amount (\<open>getWebhookActionAndData_translation\<close>).
  The \<open>catch\<close> block reads \<open>payload.data.resource.amount.value\<close> again, with no guard:
  for a payload whose resource has no amount (or that has no resource) and whose
  verification fails, a \<open>TypeError\<close> leaves the handler and no action is returned.
\<close>

theorem getWebhookActionAndData_unverified_without_amount:
  assumes "payload_data payload = d"
      and "verifyWebhook P hist (headers payload) d = Inl e"
      and "nullish (opt ''amount'' (opt ''resource'' d))"
  shows "getWebhookActionAndData h P payload hist =
           (Inl TypeError, hist @ [VerifyWebhook (headers payload) d])"
  using assms(1,2) webhook_fields_without_amount[OF assms(3), of h]
  by (simp add: getWebhookActionAndData_def getWebhookActionAndData_try_def and_then_def)

text \<open>
  Claim C8 at an order-approved event, whose resource has no amount, with a processor that
  does not verify it.
\<close>

theorem getWebhookActionAndData_unverified_without_amount_witness:
  "verifyWebhook refusing_processor [] Map.empty order_approved_event
     = Inl (ProcessorError JUndefined) \<and>
   nullish (opt ''amount'' (opt ''resource'' order_approved_event)) \<and>
   getWebhookActionAndData sample_host refusing_processor
       \<lparr>payload_data = order_approved_event, headers = Map.empty\<rparr> [] =
     (Inl TypeError, [VerifyWebhook Map.empty order_approved_event])"
proof -
  have a: "payload_data \<lparr>payload_data = order_approved_event, headers = Map.empty\<rparr>
      = order_approved_event"
    by simp
  have b: "verifyWebhook refusing_processor []
      (headers \<lparr>payload_data = order_approved_event, headers = Map.empty\<rparr>)
      order_approved_event = Inl (ProcessorError JUndefined)"
    by (simp add: refusing_processor_def)
  have c: "nullish (opt ''amount'' (opt ''resource'' order_approved_event))"
    by (simp add: order_approved_event_def field_def)
  show ?thesis
    using getWebhookActionAndData_unverified_without_amount[OF a b c, of sample_host] b c
    by simp
qed

section \<open>Claims about the status the adapter returns\<close>

lemma capture_rejected_status:
  "capture_rejected h P input d err hist = (Inr out, hist') \<Longrightarrow>
   field ''status'' out = JStr (status_value h PENDING)"
  by (auto simp add: capture_rejected_def pending_output_def field_def Let_def
      split: option.splits sum.splits if_splits)

lemma capture_returned_status:
  "capture_returned h P input d paypalData hist = (Inr out, hist') \<Longrightarrow>
   field ''status'' out = JStr (status_value h PENDING)
   \<or> field ''status'' out = JStr (status_value h AUTHORIZED)"
  by (auto simp add: capture_returned_def pending_output_def field_def Let_def
      split: sum.splits if_splits)

lemma authorizePayment_status:
  "authorizePayment h P input hist = (Inr out, hist') \<Longrightarrow>
   field ''status'' out = JStr (status_value h PENDING)
   \<or> field ''status'' out = JStr (status_value h AUTHORIZED)"
  unfolding authorizePayment_def Let_def
  by (auto split: option.splits sum.splits if_splits
      dest: capture_rejected_status capture_returned_status simp add: field_def)

lemma getPaymentStatus_status:
  "getPaymentStatus h P input hist = (Inr out, hist') \<Longrightarrow>
   field ''status'' out = JStr (status_value h CAPTURED)
   \<or> field ''status'' out = JStr (status_value h AUTHORIZED)"
  by (auto simp add: getPaymentStatus_def field_def Let_def
      split: option.splits sum.splits if_splits)

lemma capturePayment_status:
  "capturePayment h P input hist = (Inr out, hist') \<Longrightarrow>
   opt ''status'' (field ''data'' out) = JStr (status_value h CAPTURED)"
  by (auto simp add: capturePayment_def capturePayment_try_def field_def
      split: option.splits sum.splits if_splits prod.splits)

lemma cancelPayment_status:
  "cancelPayment h input = Inr out \<Longrightarrow>
   opt ''status'' (field ''data'' out) = JStr (status_value h CANCELED)"
  by (auto simp add: cancelPayment_def cancelPayment_try_def canceled_output_def field_def
      split: option.splits sum.splits if_splits)

lemma deletePayment_status:
  "deletePayment h input = Inr out \<Longrightarrow>
   opt ''status'' (field ''data'' out) = JStr (status_value h CANCELED)"
  by (auto simp add: deletePayment_def canceled_output_def field_def
      split: option.splits if_splits)

lemma refundPayment_status:
  "refundPayment h P input hist = (Inr out, hist') \<Longrightarrow>
   opt ''status'' (field ''data'' out) = JStr (status_value h CANCELED)"
  by (auto simp add: refundPayment_def refundPayment_try_def canceled_output_def field_def Let_def
      split: option.splits sum.splits if_splits prod.splits)

lemma initiatePayment_data:
  assumes "initiatePayment h P input hist = (Inr out, hist')"
      and "data input = Some d"
      and "createOrder P hist (createOrderInput (Number_js h (amount input)) (currency_code input)
             (input_context input) d) = Inr order"
  shows "opt ''status'' (field ''data'' out) =
         field ''status''
           (d ++ order ++ (case input_context input of None \<Rightarrow> Map.empty | Some c \<Rightarrow> c))"
  using assms
  by (auto simp add: initiatePayment_def field_def Let_def split: if_splits)

text \<open>
  Claim C9, as the code has it. The \<open>status\<close> that \<open>authorizePayment\<close> and
  \<open>getPaymentStatus\<close> return beside the data is a state of the framework (\<open>PENDING\<close> or
  \<open>AUTHORIZED\<close>, respectively \<open>CAPTURED\<close> or \<open>AUTHORIZED\<close>), and the \<open>status\<close> that
  \<open>capturePayment\<close>, \<open>cancelPayment\<close>, \<open>deletePayment\<close> and \<open>refundPayment\<close> write into the
  data they return is \<open>CAPTURED\<close>, respectively \<open>CANCELED\<close>. The data \<open>initiatePayment\<close>
  returns has the \<open>status\<close> of the incoming data, the created order and the context spread
  in that order: the processor's order status, when the context has none.
\<close>

theorem adapter_status_values:
  "(authorizePayment h P i1 hist1 = (Inr o1, hist1') \<longrightarrow>
      field ''status'' o1 = JStr (status_value h PENDING)
      \<or> field ''status'' o1 = JStr (status_value h AUTHORIZED))
   \<and> (getPaymentStatus h P i2 hist2 = (Inr o2, hist2') \<longrightarrow>
      field ''status'' o2 = JStr (status_value h CAPTURED)
      \<or> field ''status'' o2 = JStr (status_value h AUTHORIZED))
   \<and> (capturePayment h P i3 hist3 = (Inr o3, hist3') \<longrightarrow>
      opt ''status'' (field ''data'' o3) = JStr (status_value h CAPTURED))
   \<and> (cancelPayment h i4 = Inr o4 \<longrightarrow>
      opt ''status'' (field ''data'' o4) = JStr (status_value h CANCELED))
   \<and> (deletePayment h i5 = Inr o5 \<longrightarrow>
      opt ''status'' (field ''data'' o5) = JStr (status_value h CANCELED))
   \<and> (refundPayment h P i6 hist6 = (Inr o6, hist6') \<longrightarrow>
      opt ''status'' (field ''data'' o6) = JStr (status_value h CANCELED))
   \<and> (initiatePayment h P i7 hist7 = (Inr o7, hist7') \<and> data i7 = Some d7
       \<and> createOrder P hist7 (createOrderInput (Number_js h (amount i7)) (currency_code i7)
             (input_context i7) d7) = Inr order7 \<longrightarrow>
      opt ''status'' (field ''data'' o7) =
        field ''status''
          (d7 ++ order7 ++ (case input_context i7 of None \<Rightarrow> Map.empty | Some c \<Rightarrow> c)))"
  using authorizePayment_status[of h P i1 hist1 o1 hist1']
    getPaymentStatus_status[of h P i2 hist2 o2 hist2']
    capturePayment_status[of h P i3 hist3 o3 hist3']
    cancelPayment_status[of h i4 o4]
    deletePayment_status[of h i5 o5]
    refundPayment_status[of h P i6 hist6 o6 hist6']
    initiatePayment_data[of h P i7 hist7 o7 hist7' d7 order7]
  by blast

text \<open>
  Claim C9, as the code has it, at concrete calls of the seven operations with a processor
  that answers every request.
\<close>

theorem adapter_status_values_witness:
  "authorizePayment sample_host declining_processor completed_input [] =
     (Inr [''data'' \<mapsto> JObj completed_session, ''status'' \<mapsto> JStr ''authorized''], [])
   \<and> getPaymentStatus sample_host declining_processor sample_input [] =
     (Inr [''status'' \<mapsto> JStr ''captured''], [RetrieveOrder (JStr ''O1'')])
   \<and> capturePayment sample_host declining_processor completed_input [] =
     (Inr [''data'' \<mapsto> JObj (completed_session(''status'' \<mapsto> JStr ''captured'',
             ''captured_at'' \<mapsto> JStr ''2025-01-01T00:00:00.000Z''))], [])
   \<and> cancelPayment sample_host sample_input = Inr (canceled_output sample_host (JStr ''O1''))
   \<and> deletePayment sample_host sample_input = Inr (canceled_output sample_host (JStr ''O1''))
   \<and> refundPayment sample_host declining_processor sample_input [] =
     (Inr (canceled_output sample_host (JStr ''O1'')), [])
   \<and> initiatePayment sample_host declining_processor sample_initiate_input [] =
     (Inr [''data'' \<mapsto> JObj ((replacement_order ++ [''idempotency_key'' \<mapsto> JStr ''sess_1''])
              (''amount'' \<mapsto> JNum (Fin 50), ''currency_code'' \<mapsto> JStr ''USD'')),
           ''id'' \<mapsto> JStr ''O2''],
      [CreateOrder (createOrderInput (Fin 50) (JStr ''USD'')
         (Some [''idempotency_key'' \<mapsto> JStr ''sess_1'']) Map.empty)])
   \<and> field ''status'' [''data'' \<mapsto> JObj completed_session, ''status'' \<mapsto> JStr ''authorized'']
       = JStr (status_value sample_host AUTHORIZED)
   \<and> field ''status'' [''status'' \<mapsto> JStr ''captured''] = JStr (status_value sample_host CAPTURED)
   \<and> opt ''status'' (field ''data'' (canceled_output sample_host (JStr ''O1'')))
       = JStr (status_value sample_host CANCELED)
   \<and> opt ''status'' (field ''data''
        [''data'' \<mapsto> JObj ((replacement_order ++ [''idempotency_key'' \<mapsto> JStr ''sess_1''])
              (''amount'' \<mapsto> JNum (Fin 50), ''currency_code'' \<mapsto> JStr ''USD'')),
         ''id'' \<mapsto> JStr ''O2'']) = JStr ''CREATED''"
proof -
  have sv: "status_value sample_host AUTHORIZED = ''authorized''"
      "status_value sample_host CAPTURED = ''captured''"
      "status_value sample_host CANCELED = ''canceled''"
      "status_value sample_host PENDING = ''pending''"
    by (simp_all add: sample_host_def)
  have fc: "first_capture completed_session =
      Inr (JObj [''id'' \<mapsto> JStr ''CAP1'', ''status'' \<mapsto> JStr ''COMPLETED''])"
    by (simp add: first_capture_def completed_session_def field_def)
  have cs: "field ''id'' completed_session = JStr ''O1''"
      "field ''amount'' completed_session = JNum (Fin 50)"
      "field ''currency_code'' completed_session = JStr ''USD''"
      "field ''status'' completed_session = JStr ''COMPLETED''"
    by (simp_all add: completed_session_def field_def)
  have ss: "field ''id'' sample_session = JStr ''O1''"
      "field ''purchaseUnits'' sample_session = JUndefined"
    by (simp_all add: sample_session_def field_def)
  have e1: "authorizePayment sample_host declining_processor completed_input [] =
     (Inr [''data'' \<mapsto> JObj completed_session, ''status'' \<mapsto> JStr ''authorized''], [])"
    by (simp add: authorizePayment_def completed_input_def fc cs sv Let_def, simp add: field_def)
  have e2: "getPaymentStatus sample_host declining_processor sample_input [] =
     (Inr [''status'' \<mapsto> JStr ''captured''], [RetrieveOrder (JStr ''O1'')])"
    by (simp add: getPaymentStatus_def sample_input_def ss sv declining_processor_def Let_def,
        simp add: field_def)
  have e3: "capturePayment sample_host declining_processor completed_input [] =
     (Inr [''data'' \<mapsto> JObj (completed_session(''status'' \<mapsto> JStr ''captured'',
             ''captured_at'' \<mapsto> JStr ''2025-01-01T00:00:00.000Z''))], [])"
    by (simp add: capturePayment_def capturePayment_try_def completed_input_def cs sv,
        simp add: sample_host_def)
  have e4: "cancelPayment sample_host sample_input = Inr (canceled_output sample_host (JStr ''O1''))"
    by (simp add: cancelPayment_def cancelPayment_try_def sample_input_def ss)
  have e5: "deletePayment sample_host sample_input = Inr (canceled_output sample_host (JStr ''O1''))"
    by (simp add: deletePayment_def sample_input_def ss)
  have e6: "refundPayment sample_host declining_processor sample_input [] =
     (Inr (canceled_output sample_host (JStr ''O1'')), [])"
    by (simp add: refundPayment_def refundPayment_try_def sample_input_def ss captureIds_of_def
        and_then_def flatten1_def Let_def)
  have d7: "data sample_initiate_input = Some Map.empty"
    by (simp add: sample_initiate_input_def)
  have c7: "createOrder declining_processor []
      (createOrderInput (Number_js sample_host (amount sample_initiate_input))
         (currency_code sample_initiate_input) (input_context sample_initiate_input) Map.empty)
      = Inr replacement_order"
    by (simp add: declining_processor_def)
  have e7: "initiatePayment sample_host declining_processor sample_initiate_input [] =
     (Inr [''data'' \<mapsto> JObj ((replacement_order ++ [''idempotency_key'' \<mapsto> JStr ''sess_1''])
              (''amount'' \<mapsto> JNum (Fin 50), ''currency_code'' \<mapsto> JStr ''USD'')),
           ''id'' \<mapsto> JStr ''O2''],
      [CreateOrder (createOrderInput (Fin 50) (JStr ''USD'')
         (Some [''idempotency_key'' \<mapsto> JStr ''sess_1'']) Map.empty)])"
    by (simp add: initiatePayment_def sample_initiate_input_def declining_processor_def
        Number_js_def Let_def, simp add: replacement_order_def field_def)
  have st: "field ''status'' (Map.empty ++ replacement_order
        ++ (case input_context sample_initiate_input of None \<Rightarrow> Map.empty | Some c \<Rightarrow> c))
      = JStr ''CREATED''"
    by (simp add: sample_initiate_input_def replacement_order_def field_def)
  note main = adapter_status_values[where h = sample_host and P = declining_processor
      and ?i1.0 = completed_input and ?hist1.0 = "[]" and ?hist1' = "[]"
      and ?o1.0 = "[''data'' \<mapsto> JObj completed_session, ''status'' \<mapsto> JStr ''authorized'']"
      and ?i2.0 = sample_input and ?hist2.0 = "[]" and ?hist2' = "[RetrieveOrder (JStr ''O1'')]"
      and ?o2.0 = "[''status'' \<mapsto> JStr ''captured'']"
      and ?i3.0 = completed_input and ?hist3.0 = "[]" and ?hist3' = "[]"
      and ?o3.0 = "[''data'' \<mapsto> JObj (completed_session(''status'' \<mapsto> JStr ''captured'',
             ''captured_at'' \<mapsto> JStr ''2025-01-01T00:00:00.000Z''))]"
      and ?i4.0 = sample_input and ?o4.0 = "canceled_output sample_host (JStr ''O1'')"
      and ?i5.0 = sample_input and ?o5.0 = "canceled_output sample_host (JStr ''O1'')"
      and ?i6.0 = sample_input and ?hist6.0 = "[]" and ?hist6' = "[]"
      and ?o6.0 = "canceled_output sample_host (JStr ''O1'')"
      and ?i7.0 = sample_initiate_input and ?hist7.0 = "[]"
      and ?hist7' = "[CreateOrder (createOrderInput (Fin 50) (JStr ''USD'')
         (Some [''idempotency_key'' \<mapsto> JStr ''sess_1'']) Map.empty)]"
      and ?o7.0 = "[''data'' \<mapsto> JObj ((replacement_order ++ [''idempotency_key'' \<mapsto> JStr ''sess_1''])
              (''amount'' \<mapsto> JNum (Fin 50), ''currency_code'' \<mapsto> JStr ''USD'')),
           ''id'' \<mapsto> JStr ''O2'']"
      and ?d7.0 = Map.empty and ?order7.0 = replacement_order]
  from main e1 e2 e3 e4 e5 e6 e7 d7 c7 st
  have "(field ''status'' [''data'' \<mapsto> JObj completed_session, ''status'' \<mapsto> JStr ''authorized'']
           = JStr (status_value sample_host PENDING)
         \<or> field ''status'' [''data'' \<mapsto> JObj completed_session, ''status'' \<mapsto> JStr ''authorized'']
           = JStr (status_value sample_host AUTHORIZED))
      \<and> (field ''status'' [''status'' \<mapsto> JStr ''captured''] = JStr (status_value sample_host CAPTURED)
         \<or> field ''status'' [''status'' \<mapsto> JStr ''captured''] = JStr (status_value sample_host AUTHORIZED))
      \<and> opt ''status'' (field ''data'' (canceled_output sample_host (JStr ''O1'')))
          = JStr (status_value sample_host CANCELED)
      \<and> opt ''status'' (field ''data''
        [''data'' \<mapsto> JObj ((replacement_order ++ [''idempotency_key'' \<mapsto> JStr ''sess_1''])
              (''amount'' \<mapsto> JNum (Fin 50), ''currency_code'' \<mapsto> JStr ''USD'')),
         ''id'' \<mapsto> JStr ''O2'']) = JStr ''CREATED''"
    by presburger
  then show ?thesis
    using e1 e2 e3 e4 e5 e6 e7 by (simp add: sv field_def)
qed

text \<open>
  Claim C9 as stated fails: the data \<open>initiatePayment\<close> returns for a new order has the
  status \<open>CREATED\<close>, the processor's order status, which is none of the framework's states.
\<close>

theorem initiatePayment_returns_processor_status:
  "fst (initiatePayment sample_host declining_processor sample_initiate_input []) =
     Inr [''data'' \<mapsto> JObj [''id'' \<mapsto> JStr ''O2'',
                              ''status'' \<mapsto> JStr ''CREATED'',
                              ''idempotency_key'' \<mapsto> JStr ''sess_1'',
                              ''amount'' \<mapsto> JNum (Fin 50),
                              ''currency_code'' \<mapsto> JStr ''USD''],
          ''id'' \<mapsto> JStr ''O2'']
   \<and> JStr ''CREATED'' \<notin> framework_states sample_host"
  by (simp add: initiatePayment_def sample_initiate_input_def declining_processor_def
      replacement_order_def field_def framework_states_def
      PaymentSessionStatuses_def sample_host_def Let_def)

end
